theory Spec2Isabelle
  imports Main
begin

section \<open>Time\<close>

text \<open>
  A \<open>time.Time\<close> is modelled as the number of nanoseconds since the zero Time
  (January 1 of year 1, UTC), a \<open>time.Duration\<close> as a number of nanoseconds.
  \<open>Time.Sub\<close> saturates at the bounds of the signed 64-bit Duration, and
  \<open>time.Since t\<close> is \<open>time.Now().Sub t\<close>; the reading of the clock is the
  argument \<open>now\<close> of every operation that reads it. All readings taken during one
  call of an operation are the one instant \<open>now\<close>.
\<close>

type_synonym Time = int
type_synonym Duration = int

definition IsZero :: "Time \<Rightarrow> bool" where
  "IsZero t = (t = 0)"

definition maxDuration :: Duration where
  "maxDuration = 2 ^ 63 - 1"

definition minDuration :: Duration where
  "minDuration = - (2 ^ 63)"

definition Sub :: "Time \<Rightarrow> Time \<Rightarrow> Duration" where
  "Sub t u =
     (let d = t - u
      in if maxDuration < d then maxDuration
         else if d < minDuration then minDuration
         else d)"

definition Since :: "Time \<Rightarrow> Time \<Rightarrow> Duration" where
  "Since now t = Sub now t"

section \<open>Errors\<close>

text \<open>
  An \<open>error\<close> value is the sentinel \<open>ErrNotFound\<close>, an error made by
  \<open>errors.New\<close> (identified by its message), or the result of a call of
  \<open>fmt.Errorf\<close> whose format ends in \<open>%w\<close>: the format, the string arguments
  before the wrapped error, and the wrapped error. A nil error is \<open>None\<close>.
\<close>

datatype error =
    ErrNotFound
  | New_error string
  | Errorf string "string list" error

fun Unwrap :: "error \<Rightarrow> error option" where
  "Unwrap (Errorf f args e) = Some e"
| "Unwrap ErrNotFound = None"
| "Unwrap (New_error s) = None"

fun errors_Is :: "error \<Rightarrow> error \<Rightarrow> bool" where
  "errors_Is ErrNotFound target = (ErrNotFound = target)"
| "errors_Is (New_error s) target = (New_error s = target)"
| "errors_Is (Errorf f args e) target = (Errorf f args e = target \<or> errors_Is e target)"

text \<open>\<open>errors.Is(err, ErrNotFound)\<close> on a possibly nil error.\<close>

definition is_ErrNotFound :: "error option \<Rightarrow> bool" where
  "is_ErrNotFound err = (case err of None \<Rightarrow> False | Some x \<Rightarrow> errors_Is x ErrNotFound)"

section \<open>Entry, Store and Source\<close>

record Entry =
  Key :: string
  Value :: string
  CreatedAt :: Time
  Source :: string

text \<open>The zero value \<open>Entry{}\<close>.\<close>

definition zero_Entry :: Entry where
  "zero_Entry = \<lparr>Key = '''', Value = '''', CreatedAt = 0, Source = ''''\<rparr>"

text \<open>
  The methods of the interface \<open>Store\<close> act on a world \<open>'w\<close>: everything a store or
  a source reads and writes. A method returns its Go results, an \<open>(Entry, error)\<close>
  pair as a pair, and the world it leaves. \<open>List\<close> is left out: the order in which
  it enumerates is not fixed by the code.
\<close>

record 'w Store =
  Store_Get :: "string \<Rightarrow> 'w \<Rightarrow> (Entry \<times> error option) \<times> 'w"
  Store_Set :: "Entry \<Rightarrow> 'w \<Rightarrow> error option \<times> 'w"
  Store_Delete :: "string \<Rightarrow> 'w \<Rightarrow> error option \<times> 'w"

text \<open>A \<open>Source\<close> is its method \<open>Fetch\<close>; \<open>SourceFunc\<close> is the identity.\<close>

type_synonym 'w Source = "'w \<Rightarrow> (Entry list \<times> error option) \<times> 'w"

section \<open>The vault\<close>

record 'w vault =
  store :: "'w Store"
  sources :: "'w Source list"
  ttl :: Duration
  lastRefresh :: Time

definition expired :: "'w vault \<Rightarrow> Time \<Rightarrow> Entry \<Rightarrow> bool" where
  "expired v now e =
     (if ttl v \<le> 0 then False
      else ttl v < Since now (CreatedAt e))"

definition shouldAutoRefresh :: "'w vault \<Rightarrow> Time \<Rightarrow> bool" where
  "shouldAutoRefresh v now =
     (if length (sources v) = 0 then False
      else if IsZero (lastRefresh v) then True
      else if 0 < ttl v then ttl v < Since now (lastRefresh v)
      else False)"

text \<open>
  The inner loop of \<open>Refresh\<close>: every entry of one source is stamped with the time
  of the refresh and written; the first failing write ends the refresh.
\<close>

fun write_entries :: "'w Store \<Rightarrow> Time \<Rightarrow> Entry list \<Rightarrow> 'w \<Rightarrow> error option \<times> 'w" where
  "write_entries st now [] w = (None, w)"
| "write_entries st now (e # es) w =
     (case Store_Set st (e\<lparr>CreatedAt := now\<rparr>) w of
        (Some serr, w') \<Rightarrow> (Some (Errorf ''vault: refresh: set %q: %w'' [Key e] serr), w')
      | (None, w') \<Rightarrow> write_entries st now es w')"

text \<open>The outer loop of \<open>Refresh\<close>, over the sources in the order of the slice.\<close>

fun refresh_sources :: "'w Store \<Rightarrow> Time \<Rightarrow> 'w Source list \<Rightarrow> 'w \<Rightarrow> error option \<times> 'w" where
  "refresh_sources st now [] w = (None, w)"
| "refresh_sources st now (src # srcs) w =
     (case src w of
        ((entries, Some err), w1) \<Rightarrow> (Some (Errorf ''vault: refresh: %w'' [] err), w1)
      | ((entries, None), w1) \<Rightarrow>
          (case write_entries st now entries w1 of
             (Some werr, w2) \<Rightarrow> (Some werr, w2)
           | (None, w2) \<Rightarrow> refresh_sources st now srcs w2))"

definition Refresh :: "'w vault \<Rightarrow> Time \<Rightarrow> 'w \<Rightarrow> error option \<times> 'w vault \<times> 'w" where
  "Refresh v now w =
     (case refresh_sources (store v) now (sources v) w of
        (Some err, w') \<Rightarrow> (Some err, v, w')
      | (None, w') \<Rightarrow> (None, v\<lparr>lastRefresh := now\<rparr>, w'))"

definition vault_Get ::
  "'w vault \<Rightarrow> string \<Rightarrow> Time \<Rightarrow> 'w \<Rightarrow> (Entry \<times> error option) \<times> 'w vault \<times> 'w" where
  "vault_Get v key now w =
     (case Store_Get (store v) key w of
        ((e, err), w1) \<Rightarrow>
          if err = None \<and> \<not> expired v now e then ((e, None), v, w1)
          else if \<not> (is_ErrNotFound err \<or> (err = None \<and> expired v now e))
            then ((zero_Entry, err), v, w1)
          else if \<not> shouldAutoRefresh v now
            then ((zero_Entry, Some ErrNotFound), v, w1)
          else
            (case Refresh v now w1 of
               (Some rerr, v', w2) \<Rightarrow> ((zero_Entry, Some rerr), v', w2)
             | (None, v', w2) \<Rightarrow>
                 (case Store_Get (store v') key w2 of (r, w3) \<Rightarrow> (r, v', w3))))"

definition vault_Set :: "'w vault \<Rightarrow> Entry \<Rightarrow> Time \<Rightarrow> 'w \<Rightarrow> error option \<times> 'w" where
  "vault_Set v entry now w =
     (let entry1 = (if IsZero (CreatedAt entry) then entry\<lparr>CreatedAt := now\<rparr> else entry);
          entry2 = (if Source entry1 = '''' then entry1\<lparr>Source := ''manual''\<rparr> else entry1)
      in Store_Set (store v) entry2 w)"

definition vault_Delete :: "'w vault \<Rightarrow> string \<Rightarrow> 'w \<Rightarrow> error option \<times> 'w" where
  "vault_Delete v key w = Store_Delete (store v) key w"

section \<open>The in-memory store\<close>

text \<open>
  A \<open>memoryState\<close> is its map of entries; the mutexes have no part in a sequential
  run. A \<open>Memory\<close> holds the address of its \<open>memoryState\<close> and its key prefix. The
  world of the in-memory store is a heap of \<open>memoryState\<close> objects, the next free
  address, and whatever else the stores and sources of a run work on.
\<close>

type_synonym memoryState = "string \<rightharpoonup> Entry"

record Memory =
  state :: nat
  prefix :: string

record 'x world =
  heap :: "nat \<Rightarrow> memoryState"
  nextAddr :: nat
  ext :: 'x

definition NewMemory :: "'x world \<Rightarrow> Memory \<times> 'x world" where
  "NewMemory w =
     (\<lparr>state = nextAddr w, prefix = ''''\<rparr>,
      w\<lparr>heap := (heap w)(nextAddr w := Map.empty), nextAddr := nextAddr w + 1\<rparr>)"

definition WithNamespace :: "Memory \<Rightarrow> string \<Rightarrow> Memory" where
  "WithNamespace m ns = \<lparr>state = state m, prefix = ns @ ''/''\<rparr>"

definition Memory_Get :: "Memory \<Rightarrow> string \<Rightarrow> 'x world \<Rightarrow> (Entry \<times> error option) \<times> 'x world" where
  "Memory_Get m key w =
     (case heap w (state m) (prefix m @ key) of
        None \<Rightarrow> ((zero_Entry, Some ErrNotFound), w)
      | Some e \<Rightarrow> ((e, None), w))"

definition Memory_Set :: "Memory \<Rightarrow> Entry \<Rightarrow> 'x world \<Rightarrow> error option \<times> 'x world" where
  "Memory_Set m entry w =
     (None, w\<lparr>heap := (heap w)(state m := (heap w (state m))(prefix m @ Key entry \<mapsto> entry))\<rparr>)"

definition Memory_Delete :: "Memory \<Rightarrow> string \<Rightarrow> 'x world \<Rightarrow> error option \<times> 'x world" where
  "Memory_Delete m key w =
     (None, w\<lparr>heap := (heap w)(state m := (heap w (state m))(prefix m @ key := None))\<rparr>)"

text \<open>A \<open>*Memory\<close> as a \<open>Store\<close>.\<close>

definition Memory_Store :: "Memory \<Rightarrow> 'x world Store" where
  "Memory_Store m =
     \<lparr>Store_Get = Memory_Get m, Store_Set = Memory_Set m, Store_Delete = Memory_Delete m\<rparr>"

section \<open>Options and New\<close>

text \<open>
  A value of interface type \<open>Store\<close> as \<open>New\<close> sees it: its methods, and the outcome
  of the type assertion \<open>store.(Namespaced)\<close>, which is the method
  \<open>WithNamespace\<close> when the dynamic type has it.
\<close>

record 'w Store_value =
  methods :: "'w Store"
  as_Namespaced :: "(string \<Rightarrow> 'w Store) option"

definition Memory_value :: "Memory \<Rightarrow> 'x world Store_value" where
  "Memory_value m =
     \<lparr>methods = Memory_Store m,
      as_Namespaced = Some (\<lambda>ns. Memory_Store (WithNamespace m ns))\<rparr>"

record 'w config =
  cfg_store :: "'w Store_value"
  cfg_sources :: "'w Source list"
  cfg_namespace :: string
  cfg_ttl :: Duration

type_synonym 'w Option = "'w config \<Rightarrow> 'w config"

definition WithStore :: "'w Store_value \<Rightarrow> 'w Option" where
  "WithStore s = (\<lambda>c. c\<lparr>cfg_store := s\<rparr>)"

definition WithSource :: "'w Source \<Rightarrow> 'w Option" where
  "WithSource s = (\<lambda>c. c\<lparr>cfg_sources := cfg_sources c @ [s]\<rparr>)"

definition WithNamespace_opt :: "string \<Rightarrow> 'w Option" where
  "WithNamespace_opt ns = (\<lambda>c. c\<lparr>cfg_namespace := ns\<rparr>)"

definition WithTTL :: "Duration \<Rightarrow> 'w Option" where
  "WithTTL d = (\<lambda>c. c\<lparr>cfg_ttl := d\<rparr>)"

definition New :: "'x world Option list \<Rightarrow> 'x world \<Rightarrow> 'x world vault \<times> 'x world" where
  "New opts w =
     (case NewMemory w of
        (m, w') \<Rightarrow>
          (let cfg = fold (\<lambda>opt c. opt c) opts
                       \<lparr>cfg_store = Memory_value m, cfg_sources = [],
                        cfg_namespace = '''', cfg_ttl = 0\<rparr>;
               st = (if cfg_namespace cfg \<noteq> ''''
                     then (case as_Namespaced (cfg_store cfg) of
                             Some ns \<Rightarrow> ns (cfg_namespace cfg)
                           | None \<Rightarrow> methods (cfg_store cfg))
                     else methods (cfg_store cfg))
           in (\<lparr>store = st, sources = cfg_sources cfg, ttl = cfg_ttl cfg, lastRefresh = 0\<rparr>,
               w')))"

section \<open>Stores, sources and worlds of the example runs\<close>

text \<open>The world before anything is allocated.\<close>

definition world0 :: "unit world" where
  "world0 = \<lparr>heap = (\<lambda>a. Map.empty), nextAddr = 0, ext = ()\<rparr>"

text \<open>A source that returns the same entries at every fetch, and one that always fails.\<close>

definition fixed_Source :: "Entry list \<Rightarrow> 'w Source" where
  "fixed_Source es = (\<lambda>w. ((es, None), w))"

definition failing_Source :: "error \<Rightarrow> 'w Source" where
  "failing_Source err = (\<lambda>w. (([], Some err), w))"

text \<open>The \<open>failStore\<close> of the tests: \<open>Get\<close> always returns its error.\<close>

definition failStore :: "error \<Rightarrow> 'w Store" where
  "failStore err =
     \<lparr>Store_Get = (\<lambda>key w. ((zero_Entry, Some err), w)),
      Store_Set = (\<lambda>entry w. (None, w)),
      Store_Delete = (\<lambda>key w. (None, w))\<rparr>"

definition failStore_value :: "error \<Rightarrow> 'w Store_value" where
  "failStore_value err = \<lparr>methods = failStore err, as_Namespaced = None\<rparr>"

text \<open>The store \<open>NewMemory()\<close> makes in the empty world, and the world it leaves.\<close>

definition memory0 :: Memory where
  "memory0 = fst (NewMemory world0)"

definition world1 :: "unit world" where
  "world1 = snd (NewMemory world0)"

text \<open>
  The vault \<open>New\<close> makes from some options in the empty world, and the world after
  that vault has \<open>Set\<close> one entry at a given time.
\<close>

definition made :: "unit world Option list \<Rightarrow> unit world vault" where
  "made opts = fst (New opts world0)"

definition after_Set :: "unit world Option list \<Rightarrow> Entry \<Rightarrow> Time \<Rightarrow> unit world" where
  "after_Set opts entry t = snd (vault_Set (made opts) entry t (snd (New opts world0)))"

text \<open>The options of a vault with three sources, the second of which fails.\<close>

definition three_sources :: "unit world Option list" where
  "three_sources =
     [WithSource (fixed_Source [\<lparr>Key = ''a'', Value = ''1'', CreatedAt = 7, Source = ''A''\<rparr>]),
      WithSource (failing_Source (New_error ''network down'')),
      WithSource (fixed_Source [\<lparr>Key = ''c'', Value = ''3'', CreatedAt = 7, Source = ''C''\<rparr>])]"

text \<open>
  The entries three sources supply: the first two both supply the key \<open>k\<close>, the third
  does not.
\<close>

definition from_A :: "Entry list" where
  "from_A = [\<lparr>Key = ''k'', Value = ''from-A'', CreatedAt = 5, Source = ''A''\<rparr>,
             \<lparr>Key = ''a'', Value = ''only-A'', CreatedAt = 5, Source = ''A''\<rparr>]"

definition from_B :: "Entry list" where
  "from_B = [\<lparr>Key = ''k'', Value = ''from-B'', CreatedAt = 7, Source = ''B''\<rparr>]"

definition from_C :: "Entry list" where
  "from_C = [\<lparr>Key = ''c'', Value = ''only-C'', CreatedAt = 9, Source = ''C''\<rparr>]"

text \<open>
  The options of a vault with the first two of these sources, and of one with all three
  and a TTL set between the registrations.
\<close>

definition two_sources :: "unit world Option list" where
  "two_sources = [WithSource (fixed_Source from_A), WithSource (fixed_Source from_B)]"

definition mixed_options :: "unit world Option list" where
  "mixed_options =
     [WithSource (fixed_Source from_A), WithTTL 10,
      WithSource (fixed_Source from_B), WithSource (fixed_Source from_C)]"

text \<open>The options of a vault with a TTL whose one source supplies the key \<open>other\<close>.\<close>

definition stale_opts :: "unit world Option list" where
  "stale_opts =
     [WithSource (fixed_Source [\<lparr>Key = ''other'', Value = ''new'', CreatedAt = 0, Source = ''src''\<rparr>]),
      WithTTL 10]"

section \<open>Lemmas on errors, the refresh loops and the in-memory store\<close>

lemma errors_Is_refl: "errors_Is e e"
  by (cases e) simp_all

lemma write_entries_append:
  "write_entries st now (xs @ ys) w =
     (case write_entries st now xs w of
        (Some e, w1) \<Rightarrow> (Some e, w1)
      | (None, w1) \<Rightarrow> write_entries st now ys w1)"
  by (induction xs arbitrary: w) (auto split: prod.splits option.splits)

lemma refresh_sources_append:
  "refresh_sources st now (xs @ ys) w =
     (case refresh_sources st now xs w of
        (Some e, w1) \<Rightarrow> (Some e, w1)
      | (None, w1) \<Rightarrow> refresh_sources st now ys w1)"
  by (induction xs arbitrary: w) (auto split: prod.splits option.splits)

lemma write_entries_error:
  "write_entries st now es w = (Some e, w') \<Longrightarrow>
   \<exists>k serr. e = Errorf ''vault: refresh: set %q: %w'' [k] serr"
  by (induction es arbitrary: w) (auto split: prod.splits option.splits)

lemma refresh_sources_error:
  "refresh_sources st now srcs w = (Some e, w') \<Longrightarrow> \<exists>cause. Unwrap e = Some cause"
proof (induction srcs arbitrary: w)
  case Nil
  then show ?case by simp
next
  case (Cons src srcs)
  then show ?case
    by (auto split: prod.splits option.splits dest: write_entries_error)
qed

lemma write_entries_fails_at:
  "write_entries st now es1 w2 = (None, w3) \<Longrightarrow>
   Store_Set st (x\<lparr>CreatedAt := now\<rparr>) w3 = (Some serr, w4) \<Longrightarrow>
   write_entries st now (es1 @ x # es2) w2 =
     (Some (Errorf ''vault: refresh: set %q: %w'' [Key x] serr), w4)"
  by (simp add: write_entries_append)

lemma write_entries_restamp:
  "write_entries st now (map (\<lambda>e. e\<lparr>CreatedAt := t e\<rparr>) es) w = write_entries st now es w"
  by (induction es arbitrary: w) (auto split: prod.splits option.splits)

lemma write_entries_Memory_ok: "fst (write_entries (Memory_Store m) now es w) = None"
  by (induction es arbitrary: w) (simp_all add: Memory_Store_def Memory_Set_def)

lemma write_entries_Memory_heap:
  "heap (snd (write_entries (Memory_Store m) now es w)) (state m) (prefix m @ k) =
     (case filter (\<lambda>e. Key e = k) es of
        [] \<Rightarrow> heap w (state m) (prefix m @ k)
      | x # xs \<Rightarrow> Some ((last (x # xs))\<lparr>CreatedAt := now\<rparr>))"
proof (induction es arbitrary: w)
  case Nil
  then show ?case by simp
next
  case (Cons e es)
  show ?case
    using Cons.IH [of "snd (Memory_Set m (e\<lparr>CreatedAt := now\<rparr>) w)"]
    by (auto simp add: Memory_Store_def Memory_Set_def split: list.splits)
qed

lemma fold_WithSource:
  "cfg_sources (fold (\<lambda>opt c. opt c) (map WithSource srcs) c) = cfg_sources c @ srcs"
  by (induction srcs arbitrary: c) (simp_all add: WithSource_def)

lemma New_sources: "sources (fst (New (map WithSource srcs) w)) = srcs"
  by (simp add: New_def NewMemory_def Let_def fold_WithSource)

lemma scoped_key_neq_plain: "(ns @ ''/'') @ k \<noteq> k"
proof
  assume "(ns @ ''/'') @ k = k"
  then have "length ((ns @ ''/'') @ k) = length k" by simp
  then show False by simp
qed

lemma Memory_Set_ok: "fst (Memory_Set m e w) = None"
  by (simp add: Memory_Set_def)

lemma Memory_Get_after_Set:
  "fst (Memory_Get m' k (snd (Memory_Set m e w))) =
     (if state m' = state m \<and> prefix m' @ k = prefix m @ Key e then (e, None)
      else fst (Memory_Get m' k w))"
  by (simp add: Memory_Get_def Memory_Set_def split: option.splits)

lemma Memory_Get_world: "snd (Memory_Get m k w) = w"
  by (simp add: Memory_Get_def split: option.splits)

lemma refresh_sources_fixed:
  "refresh_sources st now (map fixed_Source ess) w = write_entries st now (concat ess) w"
proof (induction ess arbitrary: w)
  case Nil
  then show ?case by simp
next
  case (Cons es ess)
  then show ?case
    by (simp add: fixed_Source_def write_entries_append split: prod.splits option.splits)
qed

lemma New_sources_snoc:
  "sources (fst (New (opts @ [opt]) w)) =
     cfg_sources (opt (fold (\<lambda>opt c. opt c) opts
        \<lparr>cfg_store = Memory_value (fst (NewMemory w)), cfg_sources = [],
         cfg_namespace = '''', cfg_ttl = 0\<rparr>))"
  "sources (fst (New opts w)) =
     cfg_sources (fold (\<lambda>opt c. opt c) opts
        \<lparr>cfg_store = Memory_value (fst (NewMemory w)), cfg_sources = [],
         cfg_namespace = '''', cfg_ttl = 0\<rparr>)"
  by (simp_all add: New_def Let_def split: prod.splits)

lemma write_entries_Memory_eq:
  "write_entries (Memory_Store m) now es w =
     (None, snd (write_entries (Memory_Store m) now es w))"
  by (simp add: prod_eq_iff write_entries_Memory_ok)

lemma refresh_sources_fixed_Memory:
  "refresh_sources (Memory_Store m) now (map fixed_Source ess) w =
     (None, snd (write_entries (Memory_Store m) now (concat ess) w))"
  by (simp add: refresh_sources_fixed prod_eq_iff write_entries_Memory_ok)

lemma write_entries_Memory_append:
  "write_entries (Memory_Store m) now (xs @ ys) w =
     write_entries (Memory_Store m) now ys (snd (write_entries (Memory_Store m) now xs w))"
  using write_entries_Memory_ok [of m now xs w]
  by (auto simp add: write_entries_append split: prod.splits option.splits)

lemmas time_defs = IsZero_def Since_def Sub_def maxDuration_def minDuration_def

lemmas run_defs =
  New_def NewMemory_def world0_def memory0_def world1_def made_def after_Set_def Let_def
  WithStore_def WithSource_def WithNamespace_opt_def WithTTL_def WithNamespace_def
  Memory_value_def Memory_Store_def Memory_Get_def Memory_Set_def Memory_Delete_def
  fixed_Source_def failing_Source_def failStore_def failStore_value_def
  vault_Get_def vault_Set_def Refresh_def expired_def shouldAutoRefresh_def
  is_ErrNotFound_def zero_Entry_def

section \<open>The throttle gate\<close>

text \<open>
  C1. \<open>shouldAutoRefresh\<close> is a predicate of the vault and the clock reading alone. It
  denies when no source is registered. With sources: it permits when \<open>lastRefresh\<close>
  is the zero time (no refresh has completed); after a completed refresh it denies when the
  TTL is zero, and when the TTL is positive it permits if and only if the time since
  \<open>lastRefresh\<close> exceeds the TTL.
\<close>

theorem shouldAutoRefresh_cases:
  "(sources v = [] \<longrightarrow> \<not> shouldAutoRefresh v now)
   \<and> (sources v \<noteq> [] \<and> IsZero (lastRefresh v) \<longrightarrow> shouldAutoRefresh v now)
   \<and> (sources v \<noteq> [] \<and> \<not> IsZero (lastRefresh v) \<and> ttl v = 0 \<longrightarrow>
        \<not> shouldAutoRefresh v now)
   \<and> (sources v \<noteq> [] \<and> \<not> IsZero (lastRefresh v) \<and> 0 < ttl v \<longrightarrow>
        (shouldAutoRefresh v now \<longleftrightarrow> ttl v < Since now (lastRefresh v)))"
  by (simp add: shouldAutoRefresh_def)

theorem shouldAutoRefresh_cases_witness:
  "\<not> shouldAutoRefresh (made [WithTTL 5]) 100
   \<and> shouldAutoRefresh (made [WithSource (fixed_Source []), WithTTL 5]) 100
   \<and> \<not> shouldAutoRefresh ((made [WithSource (fixed_Source [])])\<lparr>lastRefresh := 40\<rparr>) 100
   \<and> shouldAutoRefresh
        ((made [WithSource (fixed_Source []), WithTTL 5])\<lparr>lastRefresh := 40\<rparr>) 100
   \<and> \<not> shouldAutoRefresh
        ((made [WithSource (fixed_Source []), WithTTL 5])\<lparr>lastRefresh := 95\<rparr>) 100"
  using
    shouldAutoRefresh_cases [of "made [WithTTL 5]" 100]
    shouldAutoRefresh_cases [of "made [WithSource (fixed_Source []), WithTTL 5]" 100]
    shouldAutoRefresh_cases
      [of "(made [WithSource (fixed_Source [])])\<lparr>lastRefresh := 40\<rparr>" 100]
    shouldAutoRefresh_cases
      [of "(made [WithSource (fixed_Source []), WithTTL 5])\<lparr>lastRefresh := 40\<rparr>" 100]
    shouldAutoRefresh_cases
      [of "(made [WithSource (fixed_Source []), WithTTL 5])\<lparr>lastRefresh := 95\<rparr>" 100]
  by (simp add: run_defs time_defs)

section \<open>Freshness\<close>

text \<open>
  C2, as the claim states it, fails where the TTL is negative: \<open>expired\<close> answers
  \<open>False\<close> for every TTL that is zero or less. A vault made with \<open>WithTTL\<close> of minus
  one nanosecond and no source returns an entry 4000 nanoseconds old at once, although
  the TTL is not zero and the age is above the TTL.
\<close>

theorem Get_fresh_negative_ttl:
  "vault_Get (made [WithTTL (- 1)]) ''k'' 5000
      (after_Set [WithTTL (- 1)] \<lparr>Key = ''k'', Value = ''v'', CreatedAt = 0, Source = ''''\<rparr> 1000)
     = ((\<lparr>Key = ''k'', Value = ''v'', CreatedAt = 1000, Source = ''manual''\<rparr>, None),
        made [WithTTL (- 1)],
        after_Set [WithTTL (- 1)] \<lparr>Key = ''k'', Value = ''v'', CreatedAt = 0, Source = ''''\<rparr> 1000)
   \<and> sources (made [WithTTL (- 1)]) = []
   \<and> \<not> (ttl (made [WithTTL (- 1)]) = 0 \<or> Since 5000 1000 \<le> ttl (made [WithTTL (- 1)]))"
  by (simp add: run_defs time_defs)

text \<open>
  C2, amended. \<open>Get\<close> classifies a stored entry as fresh if and only if the TTL is zero
  or negative, or the time since the entry's \<open>CreatedAt\<close> is at most the TTL. A fresh
  entry is returned at once: the vault is unchanged and the world is the one the store's
  lookup left, so no source has been fetched. In particular with a TTL of zero every
  stored entry is returned, whatever its age. An entry that is not fresh is never returned
  at once: the result is that of the throttle gate and the refresh.
\<close>

theorem Get_fresh_iff:
  "(\<not> expired v now e \<longleftrightarrow> (ttl v \<le> 0 \<or> Since now (CreatedAt e) \<le> ttl v))
   \<and> (Store_Get (store v) key w = ((e, None), w1) \<and> \<not> expired v now e \<longrightarrow>
        vault_Get v key now w = ((e, None), v, w1))
   \<and> (Store_Get (store v) key w = ((e, None), w1) \<and> ttl v = 0 \<longrightarrow>
        vault_Get v key now w = ((e, None), v, w1))
   \<and> (Store_Get (store v) key w = ((e, None), w1) \<and> expired v now e \<longrightarrow>
        vault_Get v key now w =
          (if \<not> shouldAutoRefresh v now then ((zero_Entry, Some ErrNotFound), v, w1)
           else (case Refresh v now w1 of
                   (Some rerr, v', w2) \<Rightarrow> ((zero_Entry, Some rerr), v', w2)
                 | (None, v', w2) \<Rightarrow>
                     (case Store_Get (store v') key w2 of (r, w3) \<Rightarrow> (r, v', w3)))))"
  by (auto simp add: expired_def vault_Get_def)

theorem Get_fresh_iff_witness:
  "fst (vault_Get (made [WithTTL 10]) ''k'' 1010
      (after_Set [WithTTL 10] \<lparr>Key = ''k'', Value = ''v'', CreatedAt = 0, Source = ''''\<rparr> 1000))
     = (\<lparr>Key = ''k'', Value = ''v'', CreatedAt = 1000, Source = ''manual''\<rparr>, None)
   \<and> fst (vault_Get (made [WithTTL 10]) ''k'' 1011
      (after_Set [WithTTL 10] \<lparr>Key = ''k'', Value = ''v'', CreatedAt = 0, Source = ''''\<rparr> 1000))
     = (zero_Entry, Some ErrNotFound)
   \<and> fst (vault_Get (made []) ''k'' 1000000000000000000
      (after_Set [] \<lparr>Key = ''k'', Value = ''v'', CreatedAt = 0, Source = ''''\<rparr> 1000))
     = (\<lparr>Key = ''k'', Value = ''v'', CreatedAt = 1000, Source = ''manual''\<rparr>, None)"
  using
    Get_fresh_iff [of "made [WithTTL 10]" 1010
      "\<lparr>Key = ''k'', Value = ''v'', CreatedAt = 1000, Source = ''manual''\<rparr>" "''k''"
      "after_Set [WithTTL 10] \<lparr>Key = ''k'', Value = ''v'', CreatedAt = 0, Source = ''''\<rparr> 1000"
      "after_Set [WithTTL 10] \<lparr>Key = ''k'', Value = ''v'', CreatedAt = 0, Source = ''''\<rparr> 1000"]
    Get_fresh_iff [of "made [WithTTL 10]" 1011
      "\<lparr>Key = ''k'', Value = ''v'', CreatedAt = 1000, Source = ''manual''\<rparr>" "''k''"
      "after_Set [WithTTL 10] \<lparr>Key = ''k'', Value = ''v'', CreatedAt = 0, Source = ''''\<rparr> 1000"
      "after_Set [WithTTL 10] \<lparr>Key = ''k'', Value = ''v'', CreatedAt = 0, Source = ''''\<rparr> 1000"]
    Get_fresh_iff [of "made []" 1000000000000000000
      "\<lparr>Key = ''k'', Value = ''v'', CreatedAt = 1000, Source = ''manual''\<rparr>" "''k''"
      "after_Set [] \<lparr>Key = ''k'', Value = ''v'', CreatedAt = 0, Source = ''''\<rparr> 1000"
      "after_Set [] \<lparr>Key = ''k'', Value = ''v'', CreatedAt = 0, Source = ''''\<rparr> 1000"]
  by (simp add: run_defs time_defs)

section \<open>Refresh\<close>

text \<open>
  C3. \<open>Refresh\<close> sets \<open>lastRefresh\<close> to the time read at its start exactly when it
  returns nil, and then every source of the vault has been fetched without error and all
  its entries written without error, one source after the other. When it returns an error
  the vault is unchanged, so \<open>lastRefresh\<close> has not advanced, and the error wraps its
  cause. When the fetch of a source fails after the sources before it have succeeded, or
  a write of one of its entries fails, the world returned is the one that fetch or write
  left: the writes made so far are kept, and neither the later entries nor the later
  sources have any part in the result.
\<close>

theorem Refresh_partial_failure:
  "(Refresh v now w = (None, v', w') \<longrightarrow>
      v' = v\<lparr>lastRefresh := now\<rparr> \<and> refresh_sources (store v) now (sources v) w = (None, w'))
   \<and> (Refresh v now w = (None, v', w') \<and> sources v = pre @ src # post \<longrightarrow>
        (\<exists>w1 es w2 w3. refresh_sources (store v) now pre w = (None, w1)
           \<and> src w1 = ((es, None), w2)
           \<and> write_entries (store v) now es w2 = (None, w3)
           \<and> refresh_sources (store v) now post w3 = (None, w')))
   \<and> (Refresh v now w = (Some e, v', w') \<longrightarrow> v' = v \<and> (\<exists>cause. Unwrap e = Some cause))
   \<and> (sources v = pre @ src # post \<and> refresh_sources (store v) now pre w = (None, w1)
        \<and> src w1 = ((es, Some err), w2) \<longrightarrow>
        Refresh v now w = (Some (Errorf ''vault: refresh: %w'' [] err), v, w2))
   \<and> (sources v = pre @ src # post \<and> refresh_sources (store v) now pre w = (None, w1)
        \<and> src w1 = ((es1 @ x # es2, None), w2)
        \<and> write_entries (store v) now es1 w2 = (None, w3)
        \<and> Store_Set (store v) (x\<lparr>CreatedAt := now\<rparr>) w3 = (Some serr, w4) \<longrightarrow>
        Refresh v now w = (Some (Errorf ''vault: refresh: set %q: %w'' [Key x] serr), v, w4))"
proof -
  have success: "Refresh v now w = (None, v', w') \<longrightarrow>
      v' = v\<lparr>lastRefresh := now\<rparr> \<and> refresh_sources (store v) now (sources v) w = (None, w')"
    by (auto simp add: Refresh_def split: prod.splits option.splits)
  have every: "Refresh v now w = (None, v', w') \<and> sources v = pre @ src # post \<longrightarrow>
        (\<exists>w1 es w2 w3. refresh_sources (store v) now pre w = (None, w1)
           \<and> src w1 = ((es, None), w2)
           \<and> write_entries (store v) now es w2 = (None, w3)
           \<and> refresh_sources (store v) now post w3 = (None, w'))"
  proof
    assume "Refresh v now w = (None, v', w') \<and> sources v = pre @ src # post"
    then have "refresh_sources (store v) now (pre @ src # post) w = (None, w')"
      using success by simp
    then show "\<exists>w1 es w2 w3. refresh_sources (store v) now pre w = (None, w1)
           \<and> src w1 = ((es, None), w2)
           \<and> write_entries (store v) now es w2 = (None, w3)
           \<and> refresh_sources (store v) now post w3 = (None, w')"
      by (auto simp add: refresh_sources_append split: prod.splits option.splits)
  qed
  have failure: "Refresh v now w = (Some e, v', w') \<longrightarrow>
      v' = v \<and> (\<exists>cause. Unwrap e = Some cause)"
    by (auto simp add: Refresh_def split: prod.splits option.splits
        dest: refresh_sources_error)
  have fetch_fails: "sources v = pre @ src # post
        \<and> refresh_sources (store v) now pre w = (None, w1)
        \<and> src w1 = ((es, Some err), w2) \<longrightarrow>
        Refresh v now w = (Some (Errorf ''vault: refresh: %w'' [] err), v, w2)"
    by (simp add: Refresh_def refresh_sources_append)
  have set_fails: "sources v = pre @ src # post
        \<and> refresh_sources (store v) now pre w = (None, w1)
        \<and> src w1 = ((es1 @ x # es2, None), w2)
        \<and> write_entries (store v) now es1 w2 = (None, w3)
        \<and> Store_Set (store v) (x\<lparr>CreatedAt := now\<rparr>) w3 = (Some serr, w4) \<longrightarrow>
        Refresh v now w = (Some (Errorf ''vault: refresh: set %q: %w'' [Key x] serr), v, w4)"
    by (simp add: Refresh_def refresh_sources_append write_entries_fails_at)
  from success every failure fetch_fails set_fails show ?thesis
    by (intro conjI)
qed

text \<open>
  Three sources, the second failing: the error of the second is returned wrapped,
  \<open>lastRefresh\<close> stays the zero time, the entry of the first source is in the store and
  the entry of the third is not. With the first source alone the refresh succeeds and
  \<open>lastRefresh\<close> is the time of the refresh.
\<close>

theorem Refresh_partial_failure_witness:
  "fst (Refresh (made three_sources) 1000 world1)
     = Some (Errorf ''vault: refresh: %w'' [] (New_error ''network down''))
   \<and> fst (snd (Refresh (made three_sources) 1000 world1)) = made three_sources
   \<and> lastRefresh (fst (snd (Refresh (made three_sources) 1000 world1))) = 0
   \<and> fst (Memory_Get memory0 ''a'' (snd (snd (Refresh (made three_sources) 1000 world1))))
       = (\<lparr>Key = ''a'', Value = ''1'', CreatedAt = 1000, Source = ''A''\<rparr>, None)
   \<and> fst (Memory_Get memory0 ''c'' (snd (snd (Refresh (made three_sources) 1000 world1))))
       = (zero_Entry, Some ErrNotFound)
   \<and> fst (Refresh (made (take 1 three_sources)) 1000 world1) = None
   \<and> lastRefresh (fst (snd (Refresh (made (take 1 three_sources)) 1000 world1))) = 1000"
  using
    Refresh_partial_failure [where v = "made three_sources" and now = 1000 and w = world1
      and pre = "[fixed_Source [\<lparr>Key = ''a'', Value = ''1'', CreatedAt = 7, Source = ''A''\<rparr>]]"
      and src = "failing_Source (New_error ''network down'')"
      and post = "[fixed_Source [\<lparr>Key = ''c'', Value = ''3'', CreatedAt = 7, Source = ''C''\<rparr>]]"
      and ?w1.0 = "snd (Memory_Set memory0 \<lparr>Key = ''a'', Value = ''1'', CreatedAt = 1000, Source = ''A''\<rparr> world1)"
      and ?w2.0 = "snd (Memory_Set memory0 \<lparr>Key = ''a'', Value = ''1'', CreatedAt = 1000, Source = ''A''\<rparr> world1)"
      and es = "[]" and err = "New_error ''network down''"
      and v' = "made three_sources" and w' = world1 and e = ErrNotFound
      and ?es1.0 = "[]" and ?es2.0 = "[]" and x = zero_Entry and ?w3.0 = world1 and ?w4.0 = world1
      and serr = ErrNotFound]
  by (simp add: three_sources_def run_defs)

section \<open>Get on a miss\<close>

text \<open>
  C4. When the store's lookup yields \<open>ErrNotFound\<close> or an entry that has expired, and
  the throttle gate denies (as it does whenever no source is registered), \<open>Get\<close>
  returns the zero Entry with the error \<open>ErrNotFound\<close>, never the stale entry; the
  vault is unchanged and the world is the one the lookup left.
\<close>

theorem Get_denied_NotFound:
  "Store_Get (store v) key w = ((e, err), w1) \<Longrightarrow>
   is_ErrNotFound err \<or> (err = None \<and> expired v now e) \<Longrightarrow>
   sources v = [] \<or> \<not> shouldAutoRefresh v now \<Longrightarrow>
   vault_Get v key now w = ((zero_Entry, Some ErrNotFound), v, w1)"
  by (cases err) (auto simp add: vault_Get_def is_ErrNotFound_def shouldAutoRefresh_def)

text \<open>
  A vault with a source, a TTL of 10 and a refresh completed at 195 holds an entry
  created at 100. At 200 the entry is stale and the gate denies: \<open>Get\<close> answers
  \<open>ErrNotFound\<close>, for the stale key and for a missing one.
\<close>

theorem Get_denied_NotFound_witness:
  "vault_Get ((made [WithSource (fixed_Source []), WithTTL 10])\<lparr>lastRefresh := 195\<rparr>) ''k'' 200
      (after_Set [WithSource (fixed_Source []), WithTTL 10]
         \<lparr>Key = ''k'', Value = ''old'', CreatedAt = 100, Source = ''seed''\<rparr> 100)
     = ((zero_Entry, Some ErrNotFound),
        (made [WithSource (fixed_Source []), WithTTL 10])\<lparr>lastRefresh := 195\<rparr>,
        after_Set [WithSource (fixed_Source []), WithTTL 10]
         \<lparr>Key = ''k'', Value = ''old'', CreatedAt = 100, Source = ''seed''\<rparr> 100)
   \<and> vault_Get (made []) ''missing'' 200 world1 = ((zero_Entry, Some ErrNotFound), made [], world1)"
  using
    Get_denied_NotFound
      [of "(made [WithSource (fixed_Source []), WithTTL 10])\<lparr>lastRefresh := 195\<rparr>" "''k''"
        "after_Set [WithSource (fixed_Source []), WithTTL 10]
           \<lparr>Key = ''k'', Value = ''old'', CreatedAt = 100, Source = ''seed''\<rparr> 100"
        "\<lparr>Key = ''k'', Value = ''old'', CreatedAt = 100, Source = ''seed''\<rparr>" None
        "after_Set [WithSource (fixed_Source []), WithTTL 10]
           \<lparr>Key = ''k'', Value = ''old'', CreatedAt = 100, Source = ''seed''\<rparr> 100"
        200]
    Get_denied_NotFound [of "made []" "''missing''" world1 zero_Entry "Some ErrNotFound" world1 200]
  by (simp add: run_defs time_defs)

text \<open>
  C5, as the claim states it, fails: \<open>Get\<close> adds no context. With the \<open>failStore\<close> of
  the tests the caller receives the very error value of the store, which wraps nothing.
\<close>

theorem Get_store_error_not_wrapped:
  "vault_Get (made [WithStore (failStore_value (New_error ''store is broken''))]) ''any'' 1000 world1
     = ((zero_Entry, Some (New_error ''store is broken'')),
        made [WithStore (failStore_value (New_error ''store is broken''))], world1)
   \<and> Unwrap (New_error ''store is broken'') = None"
  by (simp add: run_defs)

text \<open>
  C5, amended. When the store's lookup returns an error that is not \<open>ErrNotFound\<close>,
  \<open>Get\<close> returns that error value itself, unchanged, with the zero Entry; the vault
  is unchanged and no source is fetched. The error the caller receives therefore is the
  store's error for \<open>errors.Is\<close>.
\<close>

theorem Get_store_error_verbatim:
  "Store_Get (store v) key w = ((e, Some err), w1) \<Longrightarrow> \<not> errors_Is err ErrNotFound \<Longrightarrow>
   vault_Get v key now w = ((zero_Entry, Some err), v, w1) \<and> errors_Is err err"
  by (simp add: vault_Get_def is_ErrNotFound_def errors_Is_refl)

text \<open>
  A store that wraps its own failure with the operation and the key, as the keychain store
  does: \<open>Get\<close> hands that error on as it is, and the cause is found through it.
\<close>

theorem Get_store_error_verbatim_witness:
  "vault_Get
      (made [WithStore (failStore_value
         (Errorf ''keychain: get %q: %w'' [''any''] (New_error ''locked'')))]) ''any'' 1000 world1
     = ((zero_Entry, Some (Errorf ''keychain: get %q: %w'' [''any''] (New_error ''locked''))),
        made [WithStore (failStore_value
         (Errorf ''keychain: get %q: %w'' [''any''] (New_error ''locked'')))], world1)
   \<and> errors_Is (Errorf ''keychain: get %q: %w'' [''any''] (New_error ''locked''))
        (New_error ''locked'')"
  using
    Get_store_error_verbatim
      [of "made [WithStore (failStore_value
             (Errorf ''keychain: get %q: %w'' [''any''] (New_error ''locked'')))]"
        "''any''" world1 zero_Entry
        "Errorf ''keychain: get %q: %w'' [''any''] (New_error ''locked'')" world1 1000]
  by (simp add: run_defs)

text \<open>
  C9. With a positive TTL, a stored entry older than the TTL, a gate that permits and a
  refresh that succeeds and leaves the entry of the key as it was, \<open>Get\<close> returns the
  stale entry with a nil error: the lookup after the refresh is returned as it is, and
  the entry is still expired for the vault that \<open>Get\<close> leaves.
\<close>

theorem Get_returns_stale:
  "Store_Get (store v) key w = ((e, None), w1) \<Longrightarrow>
   0 < ttl v \<Longrightarrow> ttl v < Since now (CreatedAt e) \<Longrightarrow>
   shouldAutoRefresh v now \<Longrightarrow>
   Refresh v now w1 = (None, v', w2) \<Longrightarrow>
   Store_Get (store v') key w2 = ((e, None), w3) \<Longrightarrow>
   vault_Get v key now w = ((e, None), v', w3) \<and> expired v' now e"
  by (auto simp add: vault_Get_def expired_def Refresh_def split: prod.splits option.splits)

text \<open>
  The state is reached by \<open>New\<close> with one source and a TTL of 10, and a \<open>Set\<close> of
  the key \<open>k\<close> at time 100; the source supplies another key. \<open>Get\<close> at time 200
  returns the entry created at 100.
\<close>

theorem Get_returns_stale_witness:
  "fst (vault_Get (made stale_opts) ''k'' 200
         (after_Set stale_opts \<lparr>Key = ''k'', Value = ''old'', CreatedAt = 0, Source = ''''\<rparr> 100))
     = (\<lparr>Key = ''k'', Value = ''old'', CreatedAt = 100, Source = ''manual''\<rparr>, None)
   \<and> fst (snd (vault_Get (made stale_opts) ''k'' 200
         (after_Set stale_opts \<lparr>Key = ''k'', Value = ''old'', CreatedAt = 0, Source = ''''\<rparr> 100)))
     = (made stale_opts)\<lparr>lastRefresh := 200\<rparr>
   \<and> expired ((made stale_opts)\<lparr>lastRefresh := 200\<rparr>) 200
        \<lparr>Key = ''k'', Value = ''old'', CreatedAt = 100, Source = ''manual''\<rparr>"
  using
    Get_returns_stale
      [of "made stale_opts" "''k''"
        "after_Set stale_opts \<lparr>Key = ''k'', Value = ''old'', CreatedAt = 0, Source = ''''\<rparr> 100"
        "\<lparr>Key = ''k'', Value = ''old'', CreatedAt = 100, Source = ''manual''\<rparr>"
        "after_Set stale_opts \<lparr>Key = ''k'', Value = ''old'', CreatedAt = 0, Source = ''''\<rparr> 100"
        200
        "(made stale_opts)\<lparr>lastRefresh := 200\<rparr>"
        "snd (snd (Refresh (made stale_opts) 200
           (after_Set stale_opts \<lparr>Key = ''k'', Value = ''old'', CreatedAt = 0, Source = ''''\<rparr> 100)))"
        "snd (snd (Refresh (made stale_opts) 200
           (after_Set stale_opts \<lparr>Key = ''k'', Value = ''old'', CreatedAt = 0, Source = ''''\<rparr> 100)))"]
  by (simp add: stale_opts_def run_defs time_defs)

section \<open>Set\<close>

text \<open>
  C7. \<open>Set\<close> passes to the store the entry it was given with \<open>CreatedAt\<close> replaced by
  the current time when it was the zero time, and \<open>Source\<close> replaced by \<open>manual\<close>
  when it was empty. A \<open>CreatedAt\<close> or \<open>Source\<close> that was supplied is kept as given,
  and so are \<open>Key\<close> and \<open>Value\<close>. The current time not being the zero time, the
  \<open>CreatedAt\<close> that is stored is not the zero time.
\<close>

theorem Set_defaults:
  "\<exists>stored.
     vault_Set v entry now w = Store_Set (store v) stored w
     \<and> stored = entry\<lparr>CreatedAt := (if IsZero (CreatedAt entry) then now else CreatedAt entry),
                       Source := (if Source entry = '''' then ''manual'' else Source entry)\<rparr>
     \<and> (IsZero (CreatedAt entry) \<longrightarrow> CreatedAt stored = now)
     \<and> (IsZero (CreatedAt entry) \<and> \<not> IsZero now \<longrightarrow> \<not> IsZero (CreatedAt stored))
     \<and> (Source entry = '''' \<longrightarrow> Source stored = ''manual'')
     \<and> (\<not> IsZero (CreatedAt entry) \<longrightarrow> CreatedAt stored = CreatedAt entry)
     \<and> (Source entry \<noteq> '''' \<longrightarrow> Source stored = Source entry)
     \<and> Key stored = Key entry \<and> Value stored = Value entry"
  by (simp add: vault_Set_def Let_def)

theorem Set_defaults_witness:
  "fst (vault_Get (made []) ''k'' 2000
         (after_Set [] \<lparr>Key = ''k'', Value = ''v'', CreatedAt = 0, Source = ''''\<rparr> 1000))
     = (\<lparr>Key = ''k'', Value = ''v'', CreatedAt = 1000, Source = ''manual''\<rparr>, None)
   \<and> fst (vault_Get (made []) ''k'' 2000
         (after_Set [] \<lparr>Key = ''k'', Value = ''v'', CreatedAt = 77, Source = ''custom''\<rparr> 1000))
     = (\<lparr>Key = ''k'', Value = ''v'', CreatedAt = 77, Source = ''custom''\<rparr>, None)"
  using
    Set_defaults [of "made []" "\<lparr>Key = ''k'', Value = ''v'', CreatedAt = 0, Source = ''''\<rparr>"
      1000 world1]
    Set_defaults [of "made []" "\<lparr>Key = ''k'', Value = ''v'', CreatedAt = 77, Source = ''custom''\<rparr>"
      1000 world1]
  by (simp add: run_defs time_defs)

section \<open>The order of the sources\<close>

text \<open>
  C6. Registration order: \<open>New\<close> without options has no source; \<open>WithSource\<close>
  given after any options appends its source behind the sources those options registered,
  and the other options leave the sources as they are. \<open>Refresh\<close> goes through the
  sources, however many, in that order: a source is fetched in the world that the writes
  of all sources before it have left, its entries are written one after the other, each
  at once, and the sources after it run in the world its writes leave. The \<open>CreatedAt\<close>
  a source supplies has no effect on what is written. With the in-memory store, after a
  successful refresh the store holds for every key the last entry supplied for it in the
  order of registration, with \<open>CreatedAt\<close> set to the time of the refresh; so with the
  sources \<open>[A, B]\<close> both supplying \<open>k\<close> it holds the entry of \<open>B\<close>.
\<close>

theorem Refresh_order:
  "cfg_sources (WithSource s c) = cfg_sources c @ [s]
   \<and> sources (fst (New [] wn)) = []
   \<and> sources (fst (New (opts @ [WithSource s]) wn)) = sources (fst (New opts wn)) @ [s]
   \<and> sources (fst (New (opts @ [WithStore sv]) wn)) = sources (fst (New opts wn))
   \<and> sources (fst (New (opts @ [WithNamespace_opt ns]) wn)) = sources (fst (New opts wn))
   \<and> sources (fst (New (opts @ [WithTTL d]) wn)) = sources (fst (New opts wn))
   \<and> sources (fst (New (map WithSource srcs) wn)) = srcs
   \<and> (sources v = pre @ src # post \<and> refresh_sources (store v) now pre w = (None, w1)
        \<and> src w1 = ((es, None), w2) \<and> write_entries (store v) now es w2 = (None, w3) \<longrightarrow>
        Refresh v now w =
          (case refresh_sources (store v) now post w3 of
             (Some err, w') \<Rightarrow> (Some err, v, w')
           | (None, w') \<Rightarrow> (None, v\<lparr>lastRefresh := now\<rparr>, w')))
   \<and> (write_entries (store v) now xs w = (None, w1)
        \<and> Store_Set (store v) (x\<lparr>CreatedAt := now\<rparr>) w1 = (None, w2) \<longrightarrow>
        write_entries (store v) now (xs @ x # ys) w = write_entries (store v) now ys w2)
   \<and> (sources v = [A, B] \<and> A w = ((as, None), w1)
        \<and> write_entries (store v) now as w1 = (None, w2)
        \<and> B w2 = ((bs, None), w3)
        \<and> write_entries (store v) now bs w3 = (None, w4) \<longrightarrow>
        Refresh v now w = (None, v\<lparr>lastRefresh := now\<rparr>, w4))
   \<and> write_entries (store v) now (map (\<lambda>e. e\<lparr>CreatedAt := t e\<rparr>) es) w
       = write_entries (store v) now es w
   \<and> (store u = Memory_Store m \<and> sources u = [P, Q] \<and> P g = ((ps, None), ga)
        \<and> Q (snd (write_entries (Memory_Store m) now ps ga)) = ((qs, None), gb)
        \<and> filter (\<lambda>e. Key e = k) qs \<noteq> [] \<longrightarrow>
        (\<exists>gc. Refresh u now g = (None, u\<lparr>lastRefresh := now\<rparr>, gc)
           \<and> Memory_Get m k gc =
                (((last (filter (\<lambda>e. Key e = k) qs))\<lparr>CreatedAt := now\<rparr>, None), gc)))
   \<and> (store u = Memory_Store m \<and> sources u = front @ [Q]
        \<and> refresh_sources (Memory_Store m) now front g = (None, ga)
        \<and> Q ga = ((qs, None), gb) \<and> filter (\<lambda>e. Key e = k) qs \<noteq> [] \<longrightarrow>
        (\<exists>gc. Refresh u now g = (None, u\<lparr>lastRefresh := now\<rparr>, gc)
           \<and> Memory_Get m k gc =
                (((last (filter (\<lambda>e. Key e = k) qs))\<lparr>CreatedAt := now\<rparr>, None), gc)))
   \<and> (store u = Memory_Store m \<and> sources u = map fixed_Source ess \<longrightarrow>
        Refresh u now g =
          (None, u\<lparr>lastRefresh := now\<rparr>,
           snd (write_entries (Memory_Store m) now (concat ess) g))
        \<and> fst (Memory_Get m k (snd (snd (Refresh u now g)))) =
            (case filter (\<lambda>e. Key e = k) (concat ess) of
               [] \<Rightarrow> fst (Memory_Get m k g)
             | y # ys \<Rightarrow> ((last (y # ys))\<lparr>CreatedAt := now\<rparr>, None)))"
proof -
  have appended: "cfg_sources (WithSource s c) = cfg_sources c @ [s]"
    by (simp add: WithSource_def)
  have none: "sources (fst (New [] wn)) = []"
    by (simp add: New_sources_snoc)
  have registered:
    "sources (fst (New (opts @ [WithSource s]) wn)) = sources (fst (New opts wn)) @ [s]"
    by (simp add: New_sources_snoc WithSource_def)
  have with_store:
    "sources (fst (New (opts @ [WithStore sv]) wn)) = sources (fst (New opts wn))"
    by (simp add: New_sources_snoc WithStore_def)
  have with_namespace:
    "sources (fst (New (opts @ [WithNamespace_opt ns]) wn)) = sources (fst (New opts wn))"
    by (simp add: New_sources_snoc WithNamespace_opt_def)
  have with_ttl:
    "sources (fst (New (opts @ [WithTTL d]) wn)) = sources (fst (New opts wn))"
    by (simp add: New_sources_snoc WithTTL_def)
  have each_in_turn:
    "sources v = pre @ src # post \<and> refresh_sources (store v) now pre w = (None, w1)
        \<and> src w1 = ((es, None), w2) \<and> write_entries (store v) now es w2 = (None, w3) \<longrightarrow>
        Refresh v now w =
          (case refresh_sources (store v) now post w3 of
             (Some err, w') \<Rightarrow> (Some err, v, w')
           | (None, w') \<Rightarrow> (None, v\<lparr>lastRefresh := now\<rparr>, w'))"
    by (simp add: Refresh_def refresh_sources_append)
  have entry_in_turn:
    "write_entries (store v) now xs w = (None, w1)
        \<and> Store_Set (store v) (x\<lparr>CreatedAt := now\<rparr>) w1 = (None, w2) \<longrightarrow>
        write_entries (store v) now (xs @ x # ys) w = write_entries (store v) now ys w2"
    by (simp add: write_entries_append)
  have in_order: "sources v = [A, B] \<and> A w = ((as, None), w1)
        \<and> write_entries (store v) now as w1 = (None, w2)
        \<and> B w2 = ((bs, None), w3)
        \<and> write_entries (store v) now bs w3 = (None, w4) \<longrightarrow>
        Refresh v now w = (None, v\<lparr>lastRefresh := now\<rparr>, w4)"
    by (simp add: Refresh_def)
  have last_wins: "store u = Memory_Store m \<and> sources u = front @ [Q]
        \<and> refresh_sources (Memory_Store m) now front g = (None, ga)
        \<and> Q ga = ((qs, None), gb) \<and> filter (\<lambda>e. Key e = k) qs \<noteq> [] \<longrightarrow>
        (\<exists>gc. Refresh u now g = (None, u\<lparr>lastRefresh := now\<rparr>, gc)
           \<and> Memory_Get m k gc =
                (((last (filter (\<lambda>e. Key e = k) qs))\<lparr>CreatedAt := now\<rparr>, None), gc))"
    for front ga
  proof
    assume a: "store u = Memory_Store m \<and> sources u = front @ [Q]
        \<and> refresh_sources (Memory_Store m) now front g = (None, ga)
        \<and> Q ga = ((qs, None), gb) \<and> filter (\<lambda>e. Key e = k) qs \<noteq> []"
    obtain gc where written: "write_entries (Memory_Store m) now qs gb = (None, gc)"
      using write_entries_Memory_ok [of m now qs gb] by (metis prod.collapse)
    have run: "Refresh u now g = (None, u\<lparr>lastRefresh := now\<rparr>, gc)"
      using a written by (simp add: Refresh_def refresh_sources_append)
    have "heap (snd (write_entries (Memory_Store m) now qs gb)) (state m) (prefix m @ k) =
        Some ((last (filter (\<lambda>e. Key e = k) qs))\<lparr>CreatedAt := now\<rparr>)"
      using a by (simp add: write_entries_Memory_heap split: list.splits)
    then have "Memory_Get m k gc =
        (((last (filter (\<lambda>e. Key e = k) qs))\<lparr>CreatedAt := now\<rparr>, None), gc)"
      by (simp add: Memory_Get_def written)
    with run show "\<exists>gc. Refresh u now g = (None, u\<lparr>lastRefresh := now\<rparr>, gc)
           \<and> Memory_Get m k gc =
                (((last (filter (\<lambda>e. Key e = k) qs))\<lparr>CreatedAt := now\<rparr>, None), gc)"
      by blast
  qed
  have second_wins: "store u = Memory_Store m \<and> sources u = [P, Q] \<and> P g = ((ps, None), ga)
        \<and> Q (snd (write_entries (Memory_Store m) now ps ga)) = ((qs, None), gb)
        \<and> filter (\<lambda>e. Key e = k) qs \<noteq> [] \<longrightarrow>
        (\<exists>gc. Refresh u now g = (None, u\<lparr>lastRefresh := now\<rparr>, gc)
           \<and> Memory_Get m k gc =
                (((last (filter (\<lambda>e. Key e = k) qs))\<lparr>CreatedAt := now\<rparr>, None), gc))"
  proof
    assume a: "store u = Memory_Store m \<and> sources u = [P, Q] \<and> P g = ((ps, None), ga)
        \<and> Q (snd (write_entries (Memory_Store m) now ps ga)) = ((qs, None), gb)
        \<and> filter (\<lambda>e. Key e = k) qs \<noteq> []"
    obtain gp where first: "write_entries (Memory_Store m) now ps ga = (None, gp)"
      using write_entries_Memory_ok [of m now ps ga] by (metis prod.collapse)
    have "refresh_sources (Memory_Store m) now [P] g = (None, gp)"
      using a first by simp
    moreover have "Q gp = ((qs, None), gb)"
      using a first by simp
    ultimately show "\<exists>gc. Refresh u now g = (None, u\<lparr>lastRefresh := now\<rparr>, gc)
           \<and> Memory_Get m k gc =
                (((last (filter (\<lambda>e. Key e = k) qs))\<lparr>CreatedAt := now\<rparr>, None), gc)"
      using a last_wins [of "[P]" gp] by simp
  qed
  have all_fixed: "store u = Memory_Store m \<and> sources u = map fixed_Source ess \<longrightarrow>
        Refresh u now g =
          (None, u\<lparr>lastRefresh := now\<rparr>,
           snd (write_entries (Memory_Store m) now (concat ess) g))
        \<and> fst (Memory_Get m k (snd (snd (Refresh u now g)))) =
            (case filter (\<lambda>e. Key e = k) (concat ess) of
               [] \<Rightarrow> fst (Memory_Get m k g)
             | y # ys \<Rightarrow> ((last (y # ys))\<lparr>CreatedAt := now\<rparr>, None))"
  proof
    assume a: "store u = Memory_Store m \<and> sources u = map fixed_Source ess"
    let ?g' = "snd (write_entries (Memory_Store m) now (concat ess) g)"
    obtain gc where written: "write_entries (Memory_Store m) now (concat ess) g = (None, gc)"
      using write_entries_Memory_ok [of m now "concat ess" g] by (metis prod.collapse)
    have run: "Refresh u now g = (None, u\<lparr>lastRefresh := now\<rparr>, ?g')"
      using a written by (simp add: Refresh_def refresh_sources_fixed)
    have "fst (Memory_Get m k ?g') =
            (case filter (\<lambda>e. Key e = k) (concat ess) of
               [] \<Rightarrow> fst (Memory_Get m k g)
             | y # ys \<Rightarrow> ((last (y # ys))\<lparr>CreatedAt := now\<rparr>, None))"
      by (simp add: Memory_Get_def write_entries_Memory_heap split: list.splits option.splits)
    with run show "Refresh u now g =
          (None, u\<lparr>lastRefresh := now\<rparr>,
           snd (write_entries (Memory_Store m) now (concat ess) g))
        \<and> fst (Memory_Get m k (snd (snd (Refresh u now g)))) =
            (case filter (\<lambda>e. Key e = k) (concat ess) of
               [] \<Rightarrow> fst (Memory_Get m k g)
             | y # ys \<Rightarrow> ((last (y # ys))\<lparr>CreatedAt := now\<rparr>, None))"
      by simp
  qed
  from appended none registered with_store with_namespace with_ttl New_sources [of srcs wn]
    each_in_turn entry_in_turn in_order write_entries_restamp [of "store v" now t es w]
    second_wins last_wins [of front ga] all_fixed
  show ?thesis by (intro conjI)
qed

text \<open>
  Three sources registered in the order \<open>A\<close>, \<open>B\<close>, \<open>C\<close>, with another option in
  between: the vault holds them in that order, and after the refresh at time 1000 the
  default store holds for \<open>k\<close> the value of \<open>B\<close>, for \<open>a\<close> that of \<open>A\<close> and for
  \<open>c\<close> that of \<open>C\<close>, each stamped 1000 in place of what the source supplied. With
  \<open>A\<close> and \<open>B\<close> alone the store holds the value of \<open>B\<close> for \<open>k\<close>.
\<close>

theorem Refresh_order_witness:
  "sources (made mixed_options) = [fixed_Source from_A, fixed_Source from_B, fixed_Source from_C]
   \<and> fst (Refresh (made mixed_options) 1000 world1) = None
   \<and> lastRefresh (fst (snd (Refresh (made mixed_options) 1000 world1))) = 1000
   \<and> fst (Memory_Get memory0 ''k'' (snd (snd (Refresh (made mixed_options) 1000 world1))))
       = (\<lparr>Key = ''k'', Value = ''from-B'', CreatedAt = 1000, Source = ''B''\<rparr>, None)
   \<and> fst (Memory_Get memory0 ''a'' (snd (snd (Refresh (made mixed_options) 1000 world1))))
       = (\<lparr>Key = ''a'', Value = ''only-A'', CreatedAt = 1000, Source = ''A''\<rparr>, None)
   \<and> fst (Memory_Get memory0 ''c'' (snd (snd (Refresh (made mixed_options) 1000 world1))))
       = (\<lparr>Key = ''c'', Value = ''only-C'', CreatedAt = 1000, Source = ''C''\<rparr>, None)
   \<and> sources (made two_sources) = [fixed_Source from_A, fixed_Source from_B]
   \<and> fst (Refresh (made two_sources) 1000 world1) = None
   \<and> fst (Memory_Get memory0 ''k'' (snd (snd (Refresh (made two_sources) 1000 world1))))
       = (\<lparr>Key = ''k'', Value = ''from-B'', CreatedAt = 1000, Source = ''B''\<rparr>, None)"
proof -
  let ?M = "Memory_Store memory0 :: unit world Store"
  let ?wA = "snd (write_entries ?M 1000 from_A world1)"
  let ?wB = "snd (write_entries ?M 1000 from_B ?wA)"
  let ?wC = "snd (write_entries ?M 1000 from_C ?wB)"
  have store3: "store (made mixed_options) = ?M"
    and store2: "store (made two_sources) = ?M"
    by (simp_all add: mixed_options_def two_sources_def run_defs)
  have one_by_one: "sources (made [WithSource (fixed_Source from_A), WithTTL 10]) = [fixed_Source from_A]"
    "sources (made [WithSource (fixed_Source from_A)]) = [fixed_Source from_A]"
    by (simp_all add: run_defs)
  txt \<open>The order of registration, one option after the other.\<close>
  have "sources (made [WithSource (fixed_Source from_A), WithTTL 10, WithSource (fixed_Source from_B)])
      = [fixed_Source from_A, fixed_Source from_B]"
    using Refresh_order [where opts = "[WithSource (fixed_Source from_A), WithTTL 10]"
        and s = "fixed_Source from_B" and wn = world0, THEN conjunct2, THEN conjunct2,
        THEN conjunct1]
      one_by_one
    by (simp add: made_def)
  then have srcs3: "sources (made mixed_options)
      = [fixed_Source from_A, fixed_Source from_B, fixed_Source from_C]"
    using Refresh_order [where opts = "[WithSource (fixed_Source from_A), WithTTL 10,
          WithSource (fixed_Source from_B)]"
        and s = "fixed_Source from_C" and wn = world0, THEN conjunct2, THEN conjunct2,
        THEN conjunct1]
    by (simp add: made_def mixed_options_def)
  have srcs2: "sources (made two_sources) = [fixed_Source from_A, fixed_Source from_B]"
    using Refresh_order [where opts = "[WithSource (fixed_Source from_A)]"
        and s = "fixed_Source from_B" and wn = world0, THEN conjunct2, THEN conjunct2,
        THEN conjunct1]
      one_by_one
    by (simp add: made_def two_sources_def)
  txt \<open>The second of three sources, between the first and the third.\<close>
  have nest: "snd (write_entries ?M 1000 (xs @ ys) w) =
      snd (write_entries ?M 1000 ys (snd (write_entries ?M 1000 xs w)))" for xs ys w
    by (simp add: write_entries_Memory_append)
  have after_A: "refresh_sources ?M 1000 [fixed_Source from_A] world1 = (None, ?wA)"
    using refresh_sources_fixed_Memory [of memory0 1000 "[from_A]" world1]
    by (simp del: refresh_sources.simps write_entries.simps)
  have after_AB: "refresh_sources ?M 1000 [fixed_Source from_A, fixed_Source from_B] world1
      = (None, ?wB)"
    using refresh_sources_fixed_Memory [of memory0 1000 "[from_A, from_B]" world1]
    by (simp add: nest del: refresh_sources.simps write_entries.simps)
  have after_C: "refresh_sources ?M 1000 [fixed_Source from_C] ?wB = (None, ?wC)"
    using refresh_sources_fixed_Memory [of memory0 1000 "[from_C]" ?wB]
    by (simp del: refresh_sources.simps write_entries.simps)
  have fetch: "fixed_Source es w = ((es, None), w)" for es and w :: "unit world"
    by (simp add: fixed_Source_def)
  have "Refresh (made mixed_options) 1000 world1 =
      (case refresh_sources (store (made mixed_options)) 1000 [fixed_Source from_C] ?wB of
         (Some err, w') \<Rightarrow> (Some err, made mixed_options, w')
       | (None, w') \<Rightarrow> (None, (made mixed_options)\<lparr>lastRefresh := 1000\<rparr>, w'))"
  proof (rule Refresh_order [where v = "made mixed_options" and now = 1000 and w = world1
        and pre = "[fixed_Source from_A]" and src = "fixed_Source from_B"
        and post = "[fixed_Source from_C]" and es = from_B
        and ?w1.0 = ?wA and ?w2.0 = ?wA and ?w3.0 = ?wB,
        THEN conjunct2, THEN conjunct2, THEN conjunct2, THEN conjunct2, THEN conjunct2, THEN conjunct2, THEN conjunct2, THEN conjunct1, THEN mp])
    show "sources (made mixed_options)
        = [fixed_Source from_A] @ fixed_Source from_B # [fixed_Source from_C]
      \<and> refresh_sources (store (made mixed_options)) 1000 [fixed_Source from_A] world1
          = (None, ?wA)
      \<and> fixed_Source from_B ?wA = ((from_B, None), ?wA)
      \<and> write_entries (store (made mixed_options)) 1000 from_B ?wA = (None, ?wB)"
      using write_entries_Memory_eq [of memory0 1000 from_B ?wA]
      by (simp only: srcs3 store3 after_A fetch append.simps simp_thms)
  qed
  then have run3: "Refresh (made mixed_options) 1000 world1 =
      (None, (made mixed_options)\<lparr>lastRefresh := 1000\<rparr>, ?wC)"
    by (simp add: store3 after_C del: refresh_sources.simps write_entries.simps)
  txt \<open>The entries of one source, one after the other.\<close>
  have "write_entries (store (made mixed_options)) 1000 from_A world1 =
      write_entries (store (made mixed_options)) 1000
        [\<lparr>Key = ''a'', Value = ''only-A'', CreatedAt = 5, Source = ''A''\<rparr>]
        (snd (Memory_Set memory0
           \<lparr>Key = ''k'', Value = ''from-A'', CreatedAt = 1000, Source = ''A''\<rparr> world1))"
    using Refresh_order [where v = "made mixed_options" and now = 1000 and w = world1
        and xs = "[]" and x = "\<lparr>Key = ''k'', Value = ''from-A'', CreatedAt = 5, Source = ''A''\<rparr>"
        and ys = "[\<lparr>Key = ''a'', Value = ''only-A'', CreatedAt = 5, Source = ''A''\<rparr>]"
        and ?w1.0 = world1
        and ?w2.0 = "snd (Memory_Set memory0
           \<lparr>Key = ''k'', Value = ''from-A'', CreatedAt = 1000, Source = ''A''\<rparr> world1)",
        THEN conjunct2, THEN conjunct2, THEN conjunct2, THEN conjunct2, THEN conjunct2, THEN conjunct2, THEN conjunct2, THEN conjunct2, THEN conjunct1]
    by (simp add: store3 from_A_def Memory_Store_def Memory_Set_def)
  txt \<open>Two sources.\<close>
  have run2: "Refresh (made two_sources) 1000 world1 =
      (None, (made two_sources)\<lparr>lastRefresh := 1000\<rparr>, ?wB)"
  proof (rule Refresh_order [where v = "made two_sources" and now = 1000 and w = world1
        and A = "fixed_Source from_A" and B = "fixed_Source from_B"
        and as = from_A and bs = from_B
        and ?w1.0 = world1 and ?w2.0 = ?wA and ?w3.0 = ?wA and ?w4.0 = ?wB,
        THEN conjunct2, THEN conjunct2, THEN conjunct2, THEN conjunct2, THEN conjunct2, THEN conjunct2, THEN conjunct2, THEN conjunct2, THEN conjunct2, THEN conjunct1, THEN mp])
    show "sources (made two_sources) = [fixed_Source from_A, fixed_Source from_B]
      \<and> fixed_Source from_A world1 = ((from_A, None), world1)
      \<and> write_entries (store (made two_sources)) 1000 from_A world1 = (None, ?wA)
      \<and> fixed_Source from_B ?wA = ((from_B, None), ?wA)
      \<and> write_entries (store (made two_sources)) 1000 from_B ?wA = (None, ?wB)"
      using write_entries_Memory_eq [of memory0 1000 from_A world1]
        write_entries_Memory_eq [of memory0 1000 from_B ?wA]
      by (simp only: srcs2 store2 fetch simp_thms)
  qed
  have "\<exists>gc. Refresh (made two_sources) 1000 world1
        = (None, (made two_sources)\<lparr>lastRefresh := 1000\<rparr>, gc)
      \<and> Memory_Get memory0 ''k'' gc =
          (((last (filter (\<lambda>e. Key e = ''k'') from_B))\<lparr>CreatedAt := 1000\<rparr>, None), gc)"
  proof (rule Refresh_order [where u = "made two_sources" and now = 1000 and g = world1
        and m = memory0 and P = "fixed_Source from_A" and Q = "fixed_Source from_B"
        and ps = from_A and qs = from_B and ga = world1 and gb = ?wA and k = "''k''",
        THEN conjunct2, THEN conjunct2, THEN conjunct2, THEN conjunct2, THEN conjunct2, THEN conjunct2, THEN conjunct2, THEN conjunct2, THEN conjunct2, THEN conjunct2, THEN conjunct2, THEN conjunct1, THEN mp])
    show "store (made two_sources) = Memory_Store memory0
      \<and> sources (made two_sources) = [fixed_Source from_A, fixed_Source from_B]
      \<and> fixed_Source from_A world1 = ((from_A, None), world1)
      \<and> fixed_Source from_B ?wA = ((from_B, None), ?wA)
      \<and> filter (\<lambda>e. Key e = ''k'') from_B \<noteq> []"
      by (simp add: srcs2 store2 fetch from_B_def)
  qed
  then have k2: "fst (Memory_Get memory0 ''k'' (snd (snd (Refresh (made two_sources) 1000 world1))))
       = (\<lparr>Key = ''k'', Value = ''from-B'', CreatedAt = 1000, Source = ''B''\<rparr>, None)"
    by (auto simp add: from_B_def)
  txt \<open>The last of three sources.\<close>
  have "\<exists>gc. Refresh (made mixed_options) 1000 world1
        = (None, (made mixed_options)\<lparr>lastRefresh := 1000\<rparr>, gc)
      \<and> Memory_Get memory0 ''c'' gc =
          (((last (filter (\<lambda>e. Key e = ''c'') from_C))\<lparr>CreatedAt := 1000\<rparr>, None), gc)"
  proof (rule Refresh_order [where u = "made mixed_options" and now = 1000 and g = world1
        and m = memory0 and front = "[fixed_Source from_A, fixed_Source from_B]"
        and Q = "fixed_Source from_C" and qs = from_C and ga = ?wB and gb = ?wB and k = "''c''",
        THEN conjunct2, THEN conjunct2, THEN conjunct2, THEN conjunct2, THEN conjunct2, THEN conjunct2, THEN conjunct2, THEN conjunct2, THEN conjunct2, THEN conjunct2, THEN conjunct2, THEN conjunct2, THEN conjunct1, THEN mp])
    show "store (made mixed_options) = Memory_Store memory0
      \<and> sources (made mixed_options) = [fixed_Source from_A, fixed_Source from_B] @ [fixed_Source from_C]
      \<and> refresh_sources (Memory_Store memory0) 1000 [fixed_Source from_A, fixed_Source from_B] world1
          = (None, ?wB)
      \<and> fixed_Source from_C ?wB = ((from_C, None), ?wB)
      \<and> filter (\<lambda>e. Key e = ''c'') from_C \<noteq> []"
      by (simp add: srcs3 store3 fetch after_AB from_C_def
          del: refresh_sources.simps write_entries.simps)
  qed
  then have c3: "fst (Memory_Get memory0 ''c'' (snd (snd (Refresh (made mixed_options) 1000 world1))))
       = (\<lparr>Key = ''c'', Value = ''only-C'', CreatedAt = 1000, Source = ''C''\<rparr>, None)"
    by (auto simp add: from_C_def)
  txt \<open>Every key of three sources.\<close>
  have held: "Refresh (made mixed_options) 1000 world1 =
        (None, (made mixed_options)\<lparr>lastRefresh := 1000\<rparr>,
         snd (write_entries (Memory_Store memory0) 1000 (concat [from_A, from_B, from_C]) world1))
      \<and> fst (Memory_Get memory0 key (snd (snd (Refresh (made mixed_options) 1000 world1)))) =
          (case filter (\<lambda>e. Key e = key) (concat [from_A, from_B, from_C]) of
             [] \<Rightarrow> fst (Memory_Get memory0 key world1)
           | y # ys \<Rightarrow> ((last (y # ys))\<lparr>CreatedAt := 1000\<rparr>, None))" for key
  proof (rule Refresh_order [where u = "made mixed_options" and m = memory0 and now = 1000
        and g = world1 and ess = "[from_A, from_B, from_C]" and k = key,
        THEN conjunct2, THEN conjunct2, THEN conjunct2, THEN conjunct2, THEN conjunct2, THEN conjunct2, THEN conjunct2, THEN conjunct2, THEN conjunct2, THEN conjunct2, THEN conjunct2, THEN conjunct2, THEN conjunct2, THEN mp])
    show "store (made mixed_options) = Memory_Store memory0
      \<and> sources (made mixed_options) = map fixed_Source [from_A, from_B, from_C]"
      by (simp add: srcs3 store3)
  qed
  have k3: "fst (Memory_Get memory0 ''k'' (snd (snd (Refresh (made mixed_options) 1000 world1))))
       = (\<lparr>Key = ''k'', Value = ''from-B'', CreatedAt = 1000, Source = ''B''\<rparr>, None)"
    and a3: "fst (Memory_Get memory0 ''a'' (snd (snd (Refresh (made mixed_options) 1000 world1))))
       = (\<lparr>Key = ''a'', Value = ''only-A'', CreatedAt = 1000, Source = ''A''\<rparr>, None)"
    by (simp_all add: held [THEN conjunct2] from_A_def from_B_def from_C_def)
  have finished: "fst (Refresh (made mixed_options) 1000 world1) = None"
    "lastRefresh (fst (snd (Refresh (made mixed_options) 1000 world1))) = 1000"
    "fst (Refresh (made two_sources) 1000 world1) = None"
    by (simp_all add: run3 run2)
  from srcs3 finished(1,2) k3 a3 c3 srcs2 finished(3) k2 show ?thesis
    by (intro conjI)
qed

section \<open>Namespaces of the in-memory store\<close>

text \<open>
  C8. Let \<open>A\<close> and \<open>B\<close> be distinct namespace names and \<open>m\<close> an unscoped
  \<open>Memory\<close>. After an entry with key \<open>k\<close> is set through the view of \<open>A\<close>, a
  \<open>Get\<close> of \<open>k\<close> through the view of \<open>A\<close> returns exactly that entry, while a
  \<open>Get\<close> of \<open>k\<close> through the view of \<open>B\<close>, and through \<open>m\<close> itself, returns
  what it returned before the write: \<open>ErrNotFound\<close> wherever \<open>k\<close> had not been
  written there, as in a store that \<open>NewMemory\<close> has just made.
\<close>

theorem namespace_isolation:
  assumes "A \<noteq> B" and "prefix m = ''''" and "Key e = k"
    and "Memory_Set (WithNamespace m A) e w = (r, w')"
  shows "r = None
    \<and> Memory_Get (WithNamespace m A) k w' = ((e, None), w')
    \<and> fst (Memory_Get (WithNamespace m B) k w') = fst (Memory_Get (WithNamespace m B) k w)
    \<and> fst (Memory_Get m k w') = fst (Memory_Get m k w)
    \<and> (fst (Memory_Get (WithNamespace m B) k w) = (zero_Entry, Some ErrNotFound) \<longrightarrow>
         Memory_Get (WithNamespace m B) k w' = ((zero_Entry, Some ErrNotFound), w'))
    \<and> (fst (Memory_Get m k w) = (zero_Entry, Some ErrNotFound) \<longrightarrow>
         Memory_Get m k w' = ((zero_Entry, Some ErrNotFound), w'))"
proof -
  have r: "r = None" and w': "w' = snd (Memory_Set (WithNamespace m A) e w)"
    using assms(4) Memory_Set_ok [of "WithNamespace m A" e w] by auto
  have own: "fst (Memory_Get (WithNamespace m A) k w') = (e, None)"
    unfolding w' using assms(3) by (simp add: Memory_Get_after_Set)
  have other: "fst (Memory_Get (WithNamespace m B) k w') = fst (Memory_Get (WithNamespace m B) k w)"
    unfolding w' using assms(1,3) by (simp add: Memory_Get_after_Set WithNamespace_def)
  have plain: "fst (Memory_Get m k w') = fst (Memory_Get m k w)"
    unfolding w' using assms(2,3) scoped_key_neq_plain [of A k]
    by (auto simp add: Memory_Get_after_Set WithNamespace_def)
  show ?thesis
    using r own other plain Memory_Get_world [of _ k w']
    by (metis prod.collapse)
qed

theorem namespace_isolation_witness:
  "Memory_Get (WithNamespace memory0 ''prod'') ''db''
      (snd (Memory_Set (WithNamespace memory0 ''prod'')
         \<lparr>Key = ''db'', Value = ''prod-host'', CreatedAt = 1000, Source = ''manual''\<rparr> world1))
    = ((\<lparr>Key = ''db'', Value = ''prod-host'', CreatedAt = 1000, Source = ''manual''\<rparr>, None),
       snd (Memory_Set (WithNamespace memory0 ''prod'')
         \<lparr>Key = ''db'', Value = ''prod-host'', CreatedAt = 1000, Source = ''manual''\<rparr> world1))
   \<and> fst (Memory_Get (WithNamespace memory0 ''qa'') ''db''
      (snd (Memory_Set (WithNamespace memory0 ''prod'')
         \<lparr>Key = ''db'', Value = ''prod-host'', CreatedAt = 1000, Source = ''manual''\<rparr> world1)))
    = (zero_Entry, Some ErrNotFound)
   \<and> fst (Memory_Get memory0 ''db''
      (snd (Memory_Set (WithNamespace memory0 ''prod'')
         \<lparr>Key = ''db'', Value = ''prod-host'', CreatedAt = 1000, Source = ''manual''\<rparr> world1)))
    = (zero_Entry, Some ErrNotFound)"
  using namespace_isolation [of "''prod''" "''qa''" memory0
      "\<lparr>Key = ''db'', Value = ''prod-host'', CreatedAt = 1000, Source = ''manual''\<rparr>" "''db''" world1
      None "snd (Memory_Set (WithNamespace memory0 ''prod'')
         \<lparr>Key = ''db'', Value = ''prod-host'', CreatedAt = 1000, Source = ''manual''\<rparr> world1)"]
  by (simp add: run_defs)

text \<open>
  C10. The scoping is a prefix of the key with the separator \<open>/\<close>. An entry set with
  the key \<open>ns/k\<close> on the unscoped store is what the view of the namespace \<open>ns\<close>
  returns for the key \<open>k\<close>, which it did not hold before; and the namespace \<open>a\<close>
  with the key \<open>b/c\<close> and the namespace \<open>a/b\<close> with the key \<open>c\<close> are one slot of
  one map, so that an entry set through the first is returned through the second.
\<close>

theorem namespace_prefix_collision:
  "fst (Memory_Get (WithNamespace memory0 ''ns'') ''k'' world1) = (zero_Entry, Some ErrNotFound)
   \<and> fst (Memory_Get (WithNamespace memory0 ''ns'') ''k''
        (snd (Memory_Set memory0
           \<lparr>Key = ''ns/k'', Value = ''plain'', CreatedAt = 1000, Source = ''manual''\<rparr> world1)))
     = (\<lparr>Key = ''ns/k'', Value = ''plain'', CreatedAt = 1000, Source = ''manual''\<rparr>, None)
   \<and> state (WithNamespace memory0 ''a'') = state (WithNamespace memory0 ''a/b'')
   \<and> prefix (WithNamespace memory0 ''a'') @ ''b/c'' = prefix (WithNamespace memory0 ''a/b'') @ ''c''
   \<and> fst (Memory_Get (WithNamespace memory0 ''a/b'') ''c''
        (snd (Memory_Set (WithNamespace memory0 ''a'')
           \<lparr>Key = ''b/c'', Value = ''x'', CreatedAt = 1000, Source = ''manual''\<rparr> world1)))
     = (\<lparr>Key = ''b/c'', Value = ''x'', CreatedAt = 1000, Source = ''manual''\<rparr>, None)"
  by (simp add: run_defs)

end
